theory Spec2Isabelle
  imports Complex_Main "HOL-Library.Sublist" "HOL-Library.Word"
begin

unbundle bit_operations_syntax

section \<open>Go values: strings, results, panics\<close>

text \<open>
  A Go string is modelled by the sequence of code points that the standard library's
  UTF-8 decoding reads from it: \<open>strings.TrimSpace\<close>, \<open>strings.Fields\<close> and
  \<open>strings.ToLower\<close> all work rune by rune, and slicing, \<open>strings.Join\<close> and
  \<open>+\<close> keep the runes they are given. String constants of the source are written as
  Isabelle string literals and converted with \<open>str\<close>.
\<close>

type_synonym rune = nat
type_synonym gostring = "rune list"

definition str :: "string \<Rightarrow> gostring" where
  "str s = map of_char s"

text \<open>
  A Go function either returns its results or panics. A result pair \<open>(T, error)\<close> is
  the sum \<open>error + T\<close>, with \<open>Inl\<close> for a non-nil error.
\<close>

datatype error = Errorf string

datatype 'a outcome = Returns 'a | Panics string

subsection \<open>The parts of package \<open>strings\<close> and \<open>unicode\<close> that the analyzer calls\<close>

text \<open>
  \<open>unicode.IsSpace\<close>: the Latin-1 spaces \<open>\t \n \v \f \r\<close>, space, U+0085, U+00A0,
  and beyond Latin-1 the code points with the White_Space property.
\<close>

definition isSpace :: "rune \<Rightarrow> bool" where
  "isSpace r =
     ((9 \<le> r \<and> r \<le> 13) \<or> r = 32 \<or> r = 133 \<or> r = 160 \<or> r = 5760 \<or>
      (8192 \<le> r \<and> r \<le> 8202) \<or> r = 8232 \<or> r = 8233 \<or> r = 8239 \<or> r = 8287 \<or>
      r = 12288)"

text \<open>\<open>strings.TrimSpace\<close>: all leading and trailing white space removed.\<close>

definition TrimSpace :: "gostring \<Rightarrow> gostring" where
  "TrimSpace s = rev (dropWhile isSpace (rev (dropWhile isSpace s)))"

text \<open>
  \<open>strings.Fields\<close>: one pass over the runes; \<open>w\<close> is the field that is open at
  the current position (empty when none is open, a field being never empty). A space
  closes the open field, any other rune extends or opens it, and the end of the string
  closes it.
\<close>

fun fieldsFrom :: "gostring \<Rightarrow> gostring \<Rightarrow> gostring list" where
  "fieldsFrom w [] = (if w = [] then [] else [w])"
| "fieldsFrom w (r # rs) =
     (if isSpace r then (if w = [] then fieldsFrom [] rs else w # fieldsFrom [] rs)
      else fieldsFrom (w @ [r]) rs)"

definition Fields :: "gostring \<Rightarrow> gostring list" where
  "Fields s = fieldsFrom [] s"

text \<open>\<open>strings.Join\<close>.\<close>

fun Join :: "gostring list \<Rightarrow> gostring \<Rightarrow> gostring" where
  "Join [] sep = []"
| "Join [a] sep = a"
| "Join (a # b # elems) sep = a @ sep @ Join (b # elems) sep"

text \<open>\<open>strings.Contains\<close>: \<open>substr\<close> occurs at some position of \<open>s\<close>.\<close>

fun Contains :: "gostring \<Rightarrow> gostring \<Rightarrow> bool" where
  "Contains [] substr = (substr = [])"
| "Contains (r # rs) substr = (prefix substr (r # rs) \<or> Contains rs substr)"

text \<open>
  \<open>strings.ToLower\<close> maps \<open>unicode.ToLower\<close> over the runes. On ASCII that is
  \<open>A..Z\<close> to \<open>a..z\<close>; the case tables for the other code points belong to the Go
  distribution and are the parameter \<open>lc\<close>.
\<close>

definition toLowerRune :: "(rune \<Rightarrow> rune) \<Rightarrow> rune \<Rightarrow> rune" where
  "toLowerRune lc r =
     (if r < 128 then (if 65 \<le> r \<and> r \<le> 90 then r + 32 else r) else lc r)"

definition ToLower :: "(rune \<Rightarrow> rune) \<Rightarrow> gostring \<Rightarrow> gostring" where
  "ToLower lc s = map (toLowerRune lc) s"

text \<open>
  The slice expression \<open>s[:n]\<close> on a slice whose capacity is its length (as the one
  \<open>strings.Fields\<close> returns): the first \<open>n\<close> elements, or a run-time panic.
\<close>

definition sliceTo :: "'a list \<Rightarrow> nat \<Rightarrow> 'a list outcome" where
  "sliceTo s n =
     (if n \<le> length s then Returns (take n s) else Panics ''slice bounds out of range'')"

section \<open>Package analyzer\<close>

text \<open>
  \<open>WordCount\<close> and \<open>ReadTimeSeconds\<close> are Go \<open>int\<close> (64 bits); a word count is at
  most the length of a string in memory, so \<open>wordCount * 60\<close> stays far below
  \<open>2^63\<close> and the arithmetic is that of the integers. \<open>GradeLevel\<close> is a
  \<open>float64\<close> in the source; the model keeps the exact quotient.
\<close>

record Analysis =
  Approved :: bool
  WordCount :: int
  ReadTimeSeconds :: int
  GradeLevel :: rat
  Issues :: "string list"
  Suggestion :: gostring

record AppContext =
  AppName :: string
  ChannelType :: string

text \<open>
  \<open>context.Context\<close>, as far as the program could look at it: the nil interface
  value, a live context, or one that has been cancelled.
\<close>

datatype gocontext = NilContext | Live | Cancelled

definition passiveIndicators :: "string list" where
  "passiveIndicators = [''was'', ''were'', ''been'', ''being'', ''is being'', ''are being'']"

text \<open>
  The loop over the indicators appends at most one issue: it breaks at the first
  indicator found between two spaces of the lower-cased message.
\<close>

definition passiveVoice :: "(rune \<Rightarrow> rune) \<Rightarrow> gostring \<Rightarrow> bool" where
  "passiveVoice lc txt =
     list_ex (\<lambda>indicator. Contains (ToLower lc txt) (str '' '' @ str indicator @ str '' ''))
       passiveIndicators"

definition mockAnalysis :: "(rune \<Rightarrow> rune) \<Rightarrow> gostring \<Rightarrow> (error + Analysis) outcome" where
  "mockAnalysis lc txt =
    (let words = Fields txt;
         wordCount = int (length words);
         issues = [];
         approved = True;
         (issues, approved) =
            (if wordCount > 100 then (issues @ [''message is quite long''], False)
             else (issues, approved));
         issues =
            (if passiveVoice lc txt then issues @ [''possible passive voice detected'']
             else issues);
         readTime = (wordCount * 60) div 200;
         readTime = (if readTime < 1 then 1 else readTime);
         gradeLevel = of_int wordCount / 10;
         gradeLevel = (if gradeLevel > 12 then 12 else gradeLevel)
     in
       if \<not> approved \<and> wordCount > 100 then
         (case sliceTo words 50 of
            Panics p \<Rightarrow> Panics p
          | Returns ws \<Rightarrow>
              Returns (Inr \<lparr>Approved = approved, WordCount = wordCount,
                             ReadTimeSeconds = readTime, GradeLevel = gradeLevel,
                             Issues = issues,
                             Suggestion = Join ws (str '' '') @ str ''...''\<rparr>))
       else
         Returns (Inr \<lparr>Approved = approved, WordCount = wordCount,
                        ReadTimeSeconds = readTime, GradeLevel = gradeLevel,
                        Issues = issues, Suggestion = []\<rparr>))"

definition Analyze ::
  "(rune \<Rightarrow> rune) \<Rightarrow> gocontext \<Rightarrow> gostring \<Rightarrow> AppContext \<Rightarrow> (error + Analysis) outcome" where
  "Analyze lc ctx txt appCtx =
     (if TrimSpace txt = [] then
        Returns (Inr \<lparr>Approved = True, WordCount = 0, ReadTimeSeconds = 0,
                       GradeLevel = 0, Issues = [], Suggestion = []\<rparr>)
      else mockAnalysis lc txt)"

section \<open>Package apps\<close>

record TargetApp =
  Name :: string
  BundleID :: string
  TextFieldRoles :: "string list"

definition DefaultTargets :: "TargetApp list" where
  "DefaultTargets =
     [\<lparr>Name = ''Messages'', BundleID = ''com.apple.MobileSMS'',
       TextFieldRoles = [''AXTextArea'', ''AXTextField'']\<rparr>,
      \<lparr>Name = ''Slack'', BundleID = ''com.tinyspeck.slackmacgap'',
       TextFieldRoles = [''AXTextArea'', ''AXTextField'']\<rparr>,
      \<lparr>Name = ''Discord'', BundleID = ''com.hnc.Discord'',
       TextFieldRoles = [''AXTextArea'', ''AXTextField'']\<rparr>]"

definition FindTarget :: "string \<Rightarrow> TargetApp option" where
  "FindTarget bundleID = find (\<lambda>t. BundleID t = bundleID) DefaultTargets"

section \<open>Package accessibility\<close>

text \<open>
  An \<open>Element\<close> wraps a reference into the accessibility tree; the model holds what
  the operating system answers for it: the text value (\<open>Value()\<close>, empty when the
  system gives none) and the bundle identifier of the owning application.
\<close>

record Element =
  axValue :: gostring
  axBundleID :: string

definition Element_Value :: "Element \<Rightarrow> gostring" where
  "Element_Value e = axValue e"

definition Element_BundleID :: "Element \<Rightarrow> string" where
  "Element_BundleID e = axBundleID e"

record FocusMonitor =
  currentElement :: "Element option"

definition CurrentElement :: "FocusMonitor \<Rightarrow> Element option" where
  "CurrentElement m = currentElement m"

definition CurrentText :: "FocusMonitor \<Rightarrow> gostring" where
  "CurrentText m = (case currentElement m of None \<Rightarrow> [] | Some elem \<Rightarrow> Element_Value elem)"

section \<open>Package keyboard\<close>

text \<open>
  What the program does to the outside is recorded as a trace: a line written to the
  log (the format or message constant of the call), a call of the analyzer with its
  arguments, and a synthetic key event posted to the system (\<open>CGEventPost\<close>, with the
  key code and whether it is a key-down).
\<close>

datatype effect =
    Log string
  | CallAnalyze gostring AppContext
  | CGEventPost int bool

definition KeyCodeReturn :: int where
  "KeyCodeReturn = 36"

definition KeyCodeEnter :: int where
  "KeyCodeEnter = 76"

record Modifiers =
  Shift :: bool
  Command :: bool
  Control :: bool
  Option :: bool

text \<open>
  A key event as the tap receives it: the key code field and the 64-bit flags. The
  flag masks are those of the platform header (\<open>CGEventTypes.h\<close>).
\<close>

record CGEvent =
  keycode :: int
  flags :: "64 word"

definition kCGEventFlagMaskShift :: "64 word" where
  "kCGEventFlagMaskShift = 0x20000"

definition kCGEventFlagMaskControl :: "64 word" where
  "kCGEventFlagMaskControl = 0x40000"

definition kCGEventFlagMaskAlternate :: "64 word" where
  "kCGEventFlagMaskAlternate = 0x80000"

definition kCGEventFlagMaskCommand :: "64 word" where
  "kCGEventFlagMaskCommand = 0x100000"

definition getKeyCode :: "CGEvent \<Rightarrow> int" where
  "getKeyCode event = keycode event"

definition isShiftHeld :: "CGEvent \<Rightarrow> int" where
  "isShiftHeld event = (if flags event AND kCGEventFlagMaskShift \<noteq> 0 then 1 else 0)"

definition isCommandHeld :: "CGEvent \<Rightarrow> int" where
  "isCommandHeld event = (if flags event AND kCGEventFlagMaskCommand \<noteq> 0 then 1 else 0)"

definition isControlHeld :: "CGEvent \<Rightarrow> int" where
  "isControlHeld event = (if flags event AND kCGEventFlagMaskControl \<noteq> 0 then 1 else 0)"

definition isOptionHeld :: "CGEvent \<Rightarrow> int" where
  "isOptionHeld event = (if flags event AND kCGEventFlagMaskAlternate \<noteq> 0 then 1 else 0)"

definition postKeyEvent :: "int \<Rightarrow> int \<Rightarrow> effect list" where
  "postKeyEvent keyCode keyDown = [CGEventPost keyCode (keyDown \<noteq> 0)]"

definition PostEnterKey :: "effect list" where
  "PostEnterKey = postKeyEvent KeyCodeReturn 1 @ postKeyEvent KeyCodeReturn 0"

text \<open>
  \<open>EventCallback\<close>: true allows the event, false swallows it. \<open>goEventCallback\<close> is
  what the tap runs for every key-down; \<open>eventCallback\<close> is the value of the
  package-level callback variable at that moment. It returns the event, or the null
  reference (\<open>None\<close>) to swallow it.
\<close>

type_synonym EventCallback = "int \<Rightarrow> Modifiers \<Rightarrow> bool outcome \<times> effect list"

definition goEventCallback ::
  "EventCallback option \<Rightarrow> CGEvent \<Rightarrow> CGEvent option outcome \<times> effect list" where
  "goEventCallback eventCallback event =
    (let keyCode = getKeyCode event in
     if keyCode \<noteq> KeyCodeReturn \<and> keyCode \<noteq> KeyCodeEnter then (Returns (Some event), [])
     else
       let modifiers = \<lparr>Shift = (isShiftHeld event = 1), Command = (isCommandHeld event = 1),
                         Control = (isControlHeld event = 1), Option = (isOptionHeld event = 1)\<rparr>
       in case eventCallback of
            None \<Rightarrow> (Returns (Some event), [])
          | Some cb \<Rightarrow>
              (case cb keyCode modifiers of
                 (Panics p, effs) \<Rightarrow> (Panics p, effs)
               | (Returns allow, effs) \<Rightarrow>
                   if \<not> allow then (Returns None, effs) else (Returns (Some event), effs)))"

text \<open>
  \<open>InterceptHandler\<close>: true allows the keystroke, false blocks it. The handler that
  \<open>main\<close> installs is a closure over the focus monitor; the model passes the monitor's
  state at the time of the call.
\<close>

type_synonym InterceptHandler = "FocusMonitor \<Rightarrow> gocontext \<Rightarrow> bool outcome \<times> effect list"

record Interceptor =
  eventTapStarted :: bool
  handler :: "InterceptHandler option"
  monitoring :: bool
  ctx :: gocontext

definition NewInterceptor :: Interceptor where
  "NewInterceptor =
     \<lparr>eventTapStarted = False, handler = None, monitoring = False, ctx = NilContext\<rparr>"

definition SetHandler :: "Interceptor \<Rightarrow> InterceptHandler \<Rightarrow> Interceptor" where
  "SetHandler i h = i\<lparr>handler := Some h\<rparr>"

definition SetMonitoring :: "Interceptor \<Rightarrow> bool \<Rightarrow> Interceptor \<times> effect list" where
  "SetMonitoring i m = (i\<lparr>monitoring := m\<rparr>, [Log ''Monitoring: %v''])"

definition handleKeyEvent ::
  "Interceptor \<Rightarrow> FocusMonitor \<Rightarrow> int \<Rightarrow> Modifiers \<Rightarrow> bool outcome \<times> effect list" where
  "handleKeyEvent i fm keyCode modifiers =
    (if Command modifiers \<or> Control modifiers \<or> Option modifiers then (Returns True, [])
     else if Shift modifiers then (Returns True, [])
     else if \<not> monitoring i then (Returns True, [])
     else
       (case handler i of
          Some h \<Rightarrow>
            (case h fm (ctx i) of
               (r, effs) \<Rightarrow> (r, Log ''Intercepted Enter key in monitored context'' # effs))
        | None \<Rightarrow> (Returns True, [Log ''Intercepted Enter key in monitored context''])))"

text \<open>\<open>ReleaseEnter\<close> reads and writes no field of the interceptor.\<close>

definition ReleaseEnter :: "Interceptor \<Rightarrow> Interceptor \<times> effect list" where
  "ReleaseEnter i = (i, Log ''Releasing Enter key'' # PostEnterKey)"

section \<open>The handler installed by \<open>main\<close>\<close>

text \<open>
  The closure passed to \<open>interceptor.SetHandler\<close>. The analyzer it calls is the
  parameter \<open>analyze\<close>, so that an analyzer that returns an error can be put in the
  place of the program's own; a value \<open>Returns (Inl err)\<close> is a return with a non-nil
  error, \<open>Returns (Inr a)\<close> a return of an analysis with a nil error.
\<close>

definition interceptHandler ::
  "(gocontext \<Rightarrow> gostring \<Rightarrow> AppContext \<Rightarrow> (error + Analysis) outcome) \<Rightarrow> InterceptHandler" where
  "interceptHandler analyze fm c =
    (let txt = CurrentText fm in
     if txt = [] then (Returns True, [])
     else
       let appCtx = \<lparr>AppName = [], ChannelType = []\<rparr>;
           appCtx =
             (case CurrentElement fm of
                None \<Rightarrow> appCtx
              | Some elem \<Rightarrow>
                  (case FindTarget (Element_BundleID elem) of
                     None \<Rightarrow> appCtx
                   | Some target \<Rightarrow> appCtx\<lparr>AppName := Name target\<rparr>));
           called = [Log ''Analyzing message: %q'', CallAnalyze txt appCtx]
       in case analyze c txt appCtx of
            Panics p \<Rightarrow> (Panics p, called)
          | Returns (Inl err) \<Rightarrow> (Returns True, called @ [Log ''Analysis error: %v''])
          | Returns (Inr analysis) \<Rightarrow>
              if Approved analysis then
                (Returns True, called @ [Log ''Analysis: approved=%v, words=%d, issues=%v''])
              else
                (Returns True,
                 called @ [Log ''Analysis: approved=%v, words=%d, issues=%v'',
                           Log ''Message has issues but allowing (popover not implemented)'']))"

text \<open>The program's own wiring: \<open>hemingway.Analyze\<close> is the analyzer.\<close>

definition mainHandler :: "(rune \<Rightarrow> rune) \<Rightarrow> InterceptHandler" where
  "mainHandler lc = interceptHandler (Analyze lc)"

section \<open>Reading a trace\<close>

fun isCallAnalyze :: "effect \<Rightarrow> bool" where
  "isCallAnalyze (CallAnalyze t a) = True"
| "isCallAnalyze e = False"

text \<open>How many times the analyzer was called.\<close>

definition analyzeCalls :: "effect list \<Rightarrow> nat" where
  "analyzeCalls effs = length (filter isCallAnalyze effs)"

fun isCGEventPost :: "effect \<Rightarrow> bool" where
  "isCGEventPost (CGEventPost k d) = True"
| "isCGEventPost e = False"

text \<open>The synthetic key events that were posted, in order.\<close>

definition postedKeys :: "effect list \<Rightarrow> effect list" where
  "postedKeys effs = filter isCGEventPost effs"

section \<open>Example inputs\<close>

text \<open>A case table that leaves every code point beyond ASCII as it is.\<close>

definition asciiCase :: "rune \<Rightarrow> rune" where
  "asciiCase r = r"

text \<open>The focus monitor while a Slack text field holding \<open>t\<close> has the focus.\<close>

definition slackField :: "gostring \<Rightarrow> FocusMonitor" where
  "slackField t =
     \<lparr>currentElement = Some \<lparr>axValue = t, axBundleID = ''com.tinyspeck.slackmacgap''\<rparr>\<rparr>"

text \<open>An interceptor that has been started, given the handler \<open>h\<close>, and set to monitor.\<close>

definition monitoringInterceptor :: "InterceptHandler \<Rightarrow> Interceptor" where
  "monitoringInterceptor h =
     fst (SetMonitoring
            (SetHandler (NewInterceptor\<lparr>eventTapStarted := True, ctx := Live\<rparr>) h) True)"

text \<open>A plain Return key-down, and one with Shift held.\<close>

definition returnKey :: CGEvent where
  "returnKey = \<lparr>keycode = 36, flags = 0\<rparr>"

definition shiftReturnKey :: CGEvent where
  "shiftReturnKey = \<lparr>keycode = 36, flags = 0x20000\<rparr>"

text \<open>An analyzer that returns the error of \<open>ParseAnalysis\<close> on every call.\<close>

definition failingAnalyzer ::
  "gocontext \<Rightarrow> gostring \<Rightarrow> AppContext \<Rightarrow> (error + Analysis) outcome" where
  "failingAnalyzer c t a = Returns (Inl (Errorf ''failed to parse analysis''))"

text \<open>A message of 101 words.\<close>

definition longMessage :: gostring where
  "longMessage = concat (replicate 101 (str ''w ''))"

section \<open>Facts about the analyzer\<close>

subsection \<open>Words and blank strings\<close>

text \<open>Every field is a non-empty run of runes that are not spaces.\<close>

lemma fieldsFrom_words:
  "w' \<in> set (fieldsFrom w s) \<Longrightarrow> (\<forall>r\<in>set w. \<not> isSpace r) \<Longrightarrow> w' \<noteq> [] \<and> (\<forall>r\<in>set w'. \<not> isSpace r)"
proof (induction s arbitrary: w)
  case Nil
  then show ?case by (auto split: if_splits)
next
  case (Cons r rs)
  show ?case
  proof (cases "isSpace r")
    case True
    with Cons.prems have "w' = w \<and> w \<noteq> [] \<or> w' \<in> set (fieldsFrom [] rs)"
      by (auto split: if_splits)
    then show ?thesis using Cons.IH[of "[]"] Cons.prems(2) by auto
  next
    case False
    with Cons.prems have "w' \<in> set (fieldsFrom (w @ [r]) rs)" by simp
    then show ?thesis using Cons.IH[of "w @ [r]"] Cons.prems(2) False by auto
  qed
qed

lemma Fields_words:
  "w \<in> set (Fields s) \<Longrightarrow> w \<noteq> [] \<and> (\<forall>r\<in>set w. \<not> isSpace r)"
  unfolding Fields_def using fieldsFrom_words[of w "[]" s] by simp

lemma fieldsFrom_Nil_iff:
  "fieldsFrom w s = [] \<longleftrightarrow> w = [] \<and> (\<forall>r\<in>set s. isSpace r)"
  by (induction s arbitrary: w) auto

lemma Fields_Nil_iff: "Fields s = [] \<longleftrightarrow> (\<forall>r\<in>set s. isSpace r)"
  by (simp add: Fields_def fieldsFrom_Nil_iff)

lemma dropWhile_rev_dropWhile_Nil:
  "dropWhile P (rev (dropWhile P s)) = [] \<longleftrightarrow> (\<forall>x\<in>set s. P x)"
proof
  assume a: "dropWhile P (rev (dropWhile P s)) = []"
  show "\<forall>x\<in>set s. P x"
  proof (cases "dropWhile P s")
    case Nil
    then show ?thesis by simp
  next
    case (Cons y ys)
    then have "\<not> P y" using hd_dropWhile[of P s] by (metis list.sel(1) list.distinct(1))
    moreover from a have "\<forall>x\<in>set (rev (dropWhile P s)). P x"
      by (simp only: dropWhile_eq_Nil_conv)
    ultimately show ?thesis using Cons by simp
  qed
next
  assume "\<forall>x\<in>set s. P x"
  then show "dropWhile P (rev (dropWhile P s)) = []"
    by (auto dest: set_dropWhileD)
qed

lemma TrimSpace_Nil_iff: "TrimSpace s = [] \<longleftrightarrow> (\<forall>r\<in>set s. isSpace r)"
  unfolding TrimSpace_def rev_is_Nil_conv by (rule dropWhile_rev_dropWhile_Nil)

lemma TrimSpace_Nil_iff_Fields: "TrimSpace s = [] \<longleftrightarrow> Fields s = []"
  by (simp add: TrimSpace_Nil_iff Fields_Nil_iff)

lemma mockAnalysis_returns:
  "\<exists>a. mockAnalysis lc txt = Returns (Inr a)"
  by (simp add: mockAnalysis_def Let_def sliceTo_def)

lemma Analyze_returns:
  "\<exists>a. Analyze lc c txt appCtx = Returns (Inr a)"
  using mockAnalysis_returns[of lc "txt"] by (simp add: Analyze_def)

text \<open>The fields hold exactly the runes that are not spaces, in their order.\<close>

lemma concat_fieldsFrom:
  "concat (fieldsFrom w s) = w @ filter (\<lambda>r. \<not> isSpace r) s"
  by (induction s arbitrary: w) auto

lemma concat_Fields: "concat (Fields s) = filter (\<lambda>r. \<not> isSpace r) s"
  by (simp add: Fields_def concat_fieldsFrom)

lemma Contains_subset: "Contains s sub \<Longrightarrow> set sub \<subseteq> set s"
proof (induction s)
  case Nil
  then show ?case by simp
next
  case (Cons r rs)
  then show ?case using set_mono_prefix[of sub "r # rs"] by auto
qed

text \<open>
  Four equations that fix \<open>Fields\<close> on every string: leading spaces are skipped, a run
  of other runes followed by a space is one field, and so is such a run at the end.
\<close>

lemma Fields_Nil: "Fields [] = []"
  by (simp add: Fields_def)

lemma fieldsFrom_open:
  "(\<forall>r\<in>set v. \<not> isSpace r) \<Longrightarrow> fieldsFrom w (v @ s) = fieldsFrom (w @ v) s"
  by (induction v arbitrary: w) auto

lemma Fields_skip_spaces:
  "(\<forall>r\<in>set sp. isSpace r) \<Longrightarrow> Fields (sp @ s) = Fields s"
  unfolding Fields_def by (induction sp) auto

lemma Fields_word_then_space:
  assumes "w \<noteq> []" and "\<forall>r\<in>set w. \<not> isSpace r" and "isSpace r"
  shows "Fields (w @ r # s) = w # Fields s"
  using assms fieldsFrom_open[of w "[]" "r # s"] by (simp add: Fields_def)

lemma Fields_single_word:
  assumes "w \<noteq> []" and "\<forall>r\<in>set w. \<not> isSpace r"
  shows "Fields w = [w]"
  using assms fieldsFrom_open[of w "[]" "[]"] by (simp add: Fields_def)

subsection \<open>Joining\<close>

text \<open>
  \<open>Join\<close> of a non-empty list puts the separator after every element but the last.
\<close>

lemma Join_butlast_last:
  "ws \<noteq> [] \<Longrightarrow> Join ws sep = concat (map (\<lambda>w. w @ sep) (butlast ws)) @ last ws"
  by (induction ws sep rule: Join.induct) auto

lemma Join_take_50:
  assumes "50 \<le> length ws"
  shows "Join (take 50 ws) sep = concat (map (\<lambda>w. w @ sep) (take 49 ws)) @ ws ! 49"
proof -
  have ne: "take 50 ws \<noteq> []" using assms by auto
  have b: "butlast (take 50 ws) = take 49 ws"
    using assms by (simp add: butlast_take)
  have l: "last (take 50 ws) = ws ! 49"
    using assms ne by (simp add: last_conv_nth)
  show ?thesis using Join_butlast_last[OF ne, of sep] by (simp add: b l)
qed

lemma str_space: "str '' '' = [32]"
  by (simp add: str_def)

lemma str_dots: "str ''...'' = [46, 46, 46]"
  by (simp add: str_def)

subsection \<open>Approval\<close>



subsection \<open>The example inputs\<close>

lemma str_ok_nonempty: "str ''ok'' \<noteq> []"
  by (simp add: str_def)

lemma Analyze_ok:
  "Analyze asciiCase c (str ''ok'') appCtx =
     Returns (Inr \<lparr>Approved = True, WordCount = 1, ReadTimeSeconds = 1, GradeLevel = 1 / 10,
                    Issues = [], Suggestion = []\<rparr>)"
  by (simp add: Analyze_def TrimSpace_def mockAnalysis_def Fields_def passiveVoice_def
      passiveIndicators_def ToLower_def toLowerRune_def asciiCase_def str_def isSpace_def
      sliceTo_def)

lemma fieldsFrom_longMessage:
  "fieldsFrom [] (concat (replicate n (str ''w ''))) = replicate n (str ''w'')"
  by (induction n) (simp_all add: str_def isSpace_def)

lemma Fields_longMessage: "Fields longMessage = replicate 101 (str ''w'')"
  by (simp add: Fields_def longMessage_def fieldsFrom_longMessage)

lemma set_longMessage: "set longMessage = {119, 32}"
  by (auto simp: longMessage_def str_def)

lemma TrimSpace_longMessage: "TrimSpace longMessage \<noteq> []"
  by (simp add: TrimSpace_Nil_iff set_longMessage isSpace_def)

lemma longMessage_nonempty: "longMessage \<noteq> []"
  using TrimSpace_longMessage by (auto simp: TrimSpace_def)

lemma passiveVoice_longMessage: "\<not> passiveVoice asciiCase longMessage"
proof -
  have "set (ToLower asciiCase longMessage) = {119, 32}"
    by (simp add: ToLower_def set_longMessage toLowerRune_def)
  then show ?thesis
    using Contains_subset[of "ToLower asciiCase longMessage"]
    by (fastforce simp: passiveVoice_def passiveIndicators_def str_def)
qed

lemma Analyze_longMessage:
  "Analyze asciiCase c longMessage appCtx =
     Returns (Inr \<lparr>Approved = False, WordCount = 101, ReadTimeSeconds = 30,
                    GradeLevel = 101 / 10, Issues = [''message is quite long''],
                    Suggestion = Join (replicate 50 (str ''w'')) (str '' '') @ str ''...''\<rparr>)"
  by (simp add: Analyze_def TrimSpace_longMessage mockAnalysis_def Fields_longMessage
      passiveVoice_longMessage sliceTo_def)

lemma monitoringInterceptor_simps:
  "handler (monitoringInterceptor h) = Some h"
  "monitoring (monitoringInterceptor h)"
  "ctx (monitoringInterceptor h) = Live"
  by (simp_all add: monitoringInterceptor_def SetMonitoring_def SetHandler_def
      NewInterceptor_def)

lemma slackField_simps:
  "CurrentText (slackField t) = t"
  "CurrentElement (slackField t) =
     Some \<lparr>axValue = t, axBundleID = ''com.tinyspeck.slackmacgap''\<rparr>"
  by (simp_all add: slackField_def CurrentText_def CurrentElement_def Element_Value_def)

lemma FindTarget_slack:
  "FindTarget ''com.tinyspeck.slackmacgap'' =
     Some \<lparr>Name = ''Slack'', BundleID = ''com.tinyspeck.slackmacgap'',
           TextFieldRoles = [''AXTextArea'', ''AXTextField'']\<rparr>"
  by (simp add: FindTarget_def DefaultTargets_def)

lemma returnKey_simps:
  "getKeyCode returnKey = 36" "isShiftHeld returnKey = 0" "isCommandHeld returnKey = 0"
  "isControlHeld returnKey = 0" "isOptionHeld returnKey = 0"
  by (simp_all add: returnKey_def getKeyCode_def isShiftHeld_def isCommandHeld_def
      isControlHeld_def isOptionHeld_def)

section \<open>The claims\<close>

subsection \<open>C1: an analyzer error lets the keystroke through\<close>

text \<open>
  Claim C1. Whenever the tap callback, with the interceptor's handler being the one
  \<open>main\<close> installs, has called the analyzer and that call returned an error, the
  handler returns true and the callback returns the very event it was given: the
  keystroke is delivered unmodified. After the error is logged nothing else happens;
  no key event is posted.
\<close>

theorem fail_open_on_analysis_error:
  assumes "handler i = Some (interceptHandler analyze)"
    and "CallAnalyze t appCtx \<in> set (snd (goEventCallback (Some (handleKeyEvent i fm)) ev))"
    and "analyze (ctx i) t appCtx = Returns (Inl err)"
  shows "goEventCallback (Some (handleKeyEvent i fm)) ev =
           (Returns (Some ev),
            [Log ''Intercepted Enter key in monitored context'',
             Log ''Analyzing message: %q'', CallAnalyze t appCtx,
             Log ''Analysis error: %v''])
         \<and> fst (interceptHandler analyze fm (ctx i)) = Returns True"
  using assms
  by (auto simp: goEventCallback_def handleKeyEvent_def interceptHandler_def Let_def
           split: if_splits option.splits outcome.splits sum.splits prod.splits)

theorem fail_open_on_analysis_error_witness:
  "handler (monitoringInterceptor (interceptHandler failingAnalyzer)) =
     Some (interceptHandler failingAnalyzer) \<and>
   CallAnalyze (str ''ok'') \<lparr>AppName = ''Slack'', ChannelType = []\<rparr> \<in>
     set (snd (goEventCallback
       (Some (handleKeyEvent (monitoringInterceptor (interceptHandler failingAnalyzer))
                (slackField (str ''ok''))))
       returnKey)) \<and>
   failingAnalyzer (ctx (monitoringInterceptor (interceptHandler failingAnalyzer)))
     (str ''ok'') \<lparr>AppName = ''Slack'', ChannelType = []\<rparr> =
     Returns (Inl (Errorf ''failed to parse analysis'')) \<and>
   goEventCallback
     (Some (handleKeyEvent (monitoringInterceptor (interceptHandler failingAnalyzer))
              (slackField (str ''ok''))))
     returnKey =
     (Returns (Some returnKey),
      [Log ''Intercepted Enter key in monitored context'', Log ''Analyzing message: %q'',
       CallAnalyze (str ''ok'') \<lparr>AppName = ''Slack'', ChannelType = []\<rparr>,
       Log ''Analysis error: %v''])"
proof -
  let ?i = "monitoringInterceptor (interceptHandler failingAnalyzer)"
  let ?a = "\<lparr>AppName = ''Slack'', ChannelType = []\<rparr>"
  have h1: "handler ?i = Some (interceptHandler failingAnalyzer)"
    by (simp add: monitoringInterceptor_simps)
  have h2: "CallAnalyze (str ''ok'') ?a \<in>
     set (snd (goEventCallback (Some (handleKeyEvent ?i (slackField (str ''ok'')))) returnKey))"
    by (simp add: goEventCallback_def returnKey_simps KeyCodeReturn_def handleKeyEvent_def
        monitoringInterceptor_simps interceptHandler_def slackField_simps
        Element_BundleID_def FindTarget_slack failingAnalyzer_def str_ok_nonempty Let_def)
  have h3: "failingAnalyzer (ctx ?i) (str ''ok'') ?a =
     Returns (Inl (Errorf ''failed to parse analysis''))"
    by (simp add: failingAnalyzer_def)
  show ?thesis
    using h1 h2 h3 fail_open_on_analysis_error[OF h1 h2 h3] by simp
qed

subsection \<open>C3: the callback runs the analyzer itself\<close>

text \<open>
  Claim C3, as amended. The key-event callback performs the validation itself: when the
  interceptor's handler is the one \<open>main\<close> installs, a call of \<open>handleKeyEvent\<close>
  calls the analyzer once, before it returns, if no modifier is held, the interceptor
  is monitoring and the focused field is not empty; in every other case it does not
  call the analyzer.
\<close>

theorem callback_calls_analyzer_inline:
  assumes "handler i = Some (interceptHandler analyze)"
  shows "analyzeCalls (snd (handleKeyEvent i fm keyCode modifiers)) =
           (if \<not> Shift modifiers \<and> \<not> Command modifiers \<and> \<not> Control modifiers \<and>
               \<not> Option modifiers \<and> monitoring i \<and> CurrentText fm \<noteq> []
            then 1 else 0)"
  using assms
  by (auto simp: handleKeyEvent_def interceptHandler_def Let_def analyzeCalls_def
      split: outcome.splits sum.splits)

theorem callback_calls_analyzer_inline_witness:
  "handler (monitoringInterceptor (mainHandler asciiCase)) =
     Some (interceptHandler (Analyze asciiCase)) \<and>
   analyzeCalls (snd (handleKeyEvent (monitoringInterceptor (mainHandler asciiCase))
      (slackField (str ''ok'')) 36
      \<lparr>Shift = False, Command = False, Control = False, Option = False\<rparr>)) = 1"
proof -
  have h: "handler (monitoringInterceptor (mainHandler asciiCase)) =
      Some (interceptHandler (Analyze asciiCase))"
    by (simp add: monitoringInterceptor_simps mainHandler_def)
  show ?thesis
    using h callback_calls_analyzer_inline[OF h, of "slackField (str ''ok'')" 36
        "\<lparr>Shift = False, Command = False, Control = False, Option = False\<rparr>"]
    by (simp add: monitoringInterceptor_simps slackField_simps str_ok_nonempty)
qed

text \<open>
  The claim as it was stated, that the analyzer is never called within the callback,
  fails for a plain Return key on a monitored Slack field holding \<open>ok\<close>: the trace of
  that one run of the tap callback holds the call of the analyzer.
\<close>

theorem callback_calls_analyzer_counterexample:
  "goEventCallback
     (Some (handleKeyEvent (monitoringInterceptor (mainHandler asciiCase))
              (slackField (str ''ok''))))
     returnKey =
     (Returns (Some returnKey),
      [Log ''Intercepted Enter key in monitored context'', Log ''Analyzing message: %q'',
       CallAnalyze (str ''ok'') \<lparr>AppName = ''Slack'', ChannelType = []\<rparr>,
       Log ''Analysis: approved=%v, words=%d, issues=%v''])"
  by (simp add: goEventCallback_def returnKey_simps KeyCodeReturn_def handleKeyEvent_def
      monitoringInterceptor_simps mainHandler_def interceptHandler_def slackField_simps
      Element_BundleID_def FindTarget_slack Analyze_ok str_ok_nonempty Let_def)

subsection \<open>C4: a flagged message\<close>

text \<open>
  Claim C4 says that a message the analysis does not approve is held until the user
  has decided. The program does not do so: for a plain Return key on a monitored Slack
  field holding the 101-word message, the analysis is not approved (one issue, and a
  suggestion of the first 50 words), the handler logs that it allows the message, and
  the callback returns the event at once.
\<close>

theorem flagged_message_is_released:
  "goEventCallback
     (Some (handleKeyEvent (monitoringInterceptor (mainHandler asciiCase))
              (slackField longMessage)))
     returnKey =
     (Returns (Some returnKey),
      [Log ''Intercepted Enter key in monitored context'', Log ''Analyzing message: %q'',
       CallAnalyze longMessage \<lparr>AppName = ''Slack'', ChannelType = []\<rparr>,
       Log ''Analysis: approved=%v, words=%d, issues=%v'',
       Log ''Message has issues but allowing (popover not implemented)'']) \<and>
   Analyze asciiCase Live longMessage \<lparr>AppName = ''Slack'', ChannelType = []\<rparr> =
     Returns (Inr \<lparr>Approved = False, WordCount = 101, ReadTimeSeconds = 30,
                    GradeLevel = 101 / 10, Issues = [''message is quite long''],
                    Suggestion = Join (replicate 50 (str ''w'')) (str '' '') @ str ''...''\<rparr>)"
  by (simp add: goEventCallback_def returnKey_simps KeyCodeReturn_def handleKeyEvent_def
      monitoringInterceptor_simps mainHandler_def interceptHandler_def slackField_simps
      Element_BundleID_def FindTarget_slack Analyze_longMessage longMessage_nonempty Let_def)

subsection \<open>C5: empty and short content\<close>




subsection \<open>C6: a modified trigger key is never swallowed\<close>

text \<open>
  Claim C6. For every key code, interceptor state and handler: if Shift, Command, Control
  or Option is among the modifiers, \<open>handleKeyEvent\<close> returns true (allow) without
  doing anything else; and for every key event whose flags have one of the four
  modifier bits, the tap callback returns the event itself.
\<close>

theorem modified_key_passes:
  "(Shift modifiers \<or> Command modifiers \<or> Control modifiers \<or> Option modifiers \<longrightarrow>
      handleKeyEvent i fm keyCode modifiers = (Returns True, [])) \<and>
   (flags ev AND kCGEventFlagMaskShift \<noteq> 0 \<or> flags ev AND kCGEventFlagMaskCommand \<noteq> 0 \<or>
    flags ev AND kCGEventFlagMaskControl \<noteq> 0 \<or> flags ev AND kCGEventFlagMaskAlternate \<noteq> 0 \<longrightarrow>
      goEventCallback (Some (handleKeyEvent i fm)) ev = (Returns (Some ev), []))"
  by (auto simp: handleKeyEvent_def goEventCallback_def Let_def isShiftHeld_def
      isCommandHeld_def isControlHeld_def isOptionHeld_def)

theorem modified_key_passes_witness:
  "flags shiftReturnKey AND kCGEventFlagMaskShift \<noteq> 0 \<and>
   goEventCallback
     (Some (handleKeyEvent (monitoringInterceptor (mainHandler asciiCase))
              (slackField longMessage)))
     shiftReturnKey = (Returns (Some shiftReturnKey), []) \<and>
   handleKeyEvent (monitoringInterceptor (mainHandler asciiCase)) (slackField longMessage) 36
     \<lparr>Shift = True, Command = False, Control = False, Option = False\<rparr> = (Returns True, [])"
proof -
  have h: "flags shiftReturnKey AND kCGEventFlagMaskShift \<noteq> 0"
    by (simp add: shiftReturnKey_def kCGEventFlagMaskShift_def)
  show ?thesis
    using h modified_key_passes[of
        "\<lparr>Shift = True, Command = False, Control = False, Option = False\<rparr>"
        "monitoringInterceptor (mainHandler asciiCase)" "slackField longMessage" 36
        shiftReturnKey]
    by simp
qed

subsection \<open>C8: an approved analysis with an issue\<close>

text \<open>
  Claim C8 says that an approved analysis carries no issues. The analyzer breaks it: the
  message \<open>it was good\<close> is approved and carries the passive-voice issue.
\<close>

theorem approved_with_issue:
  "Analyze asciiCase Live (str ''it was good'') \<lparr>AppName = ''Slack'', ChannelType = []\<rparr> =
     Returns (Inr \<lparr>Approved = True, WordCount = 3, ReadTimeSeconds = 1, GradeLevel = 3 / 10,
                    Issues = [''possible passive voice detected''], Suggestion = []\<rparr>)"
  by (simp add: Analyze_def TrimSpace_def mockAnalysis_def Fields_def passiveVoice_def
      passiveIndicators_def ToLower_def toLowerRune_def asciiCase_def str_def isSpace_def
      sliceTo_def)

subsection \<open>C9: releasing the key\<close>

text \<open>
  Claim C9, as amended. Every call of \<open>ReleaseEnter\<close>, in every state of the
  interceptor, logs one line and posts one key-down and one key-up of the Return key
  (code 36), and leaves the interceptor as it was.
\<close>

theorem ReleaseEnter_posts_one_pair:
  "ReleaseEnter i =
     (i, [Log ''Releasing Enter key'', CGEventPost 36 True, CGEventPost 36 False])"
  by (simp add: ReleaseEnter_def PostEnterKey_def postKeyEvent_def KeyCodeReturn_def)

theorem ReleaseEnter_posts_one_pair_witness:
  "ReleaseEnter (monitoringInterceptor (mainHandler asciiCase)) =
     (monitoringInterceptor (mainHandler asciiCase),
      [Log ''Releasing Enter key'', CGEventPost 36 True, CGEventPost 36 False])"
  using ReleaseEnter_posts_one_pair[of "monitoringInterceptor (mainHandler asciiCase)"]
  by simp

text \<open>
  The claim as it was stated fails on a new interceptor, which has seen no key event
  and so holds no swallowed one: the first call posts a pair of key events, and so
  does the second.
\<close>

theorem release_not_idempotent_counterexample:
  "postedKeys (snd (ReleaseEnter NewInterceptor)) =
     [CGEventPost 36 True, CGEventPost 36 False] \<and>
   postedKeys (snd (ReleaseEnter (fst (ReleaseEnter NewInterceptor)))) =
     [CGEventPost 36 True, CGEventPost 36 False]"
  by (simp add: ReleaseEnter_def PostEnterKey_def postKeyEvent_def postedKeys_def
      KeyCodeReturn_def)

subsection \<open>C10: what the analyzer decides\<close>

text \<open>
  Claim C10. For every text that is not blank, \<open>Analyze\<close> returns an analysis and no
  error (and does not panic). The analysis is approved exactly when the text has at
  most 100 fields; its suggestion is non-empty exactly when it is not approved, and is
  then the first 50 fields joined by single spaces, followed by three dots: each of
  the first 49 fields with a space (code point 32) after it, then the 50th field, then
  three full stops (code point 46). The word count is the number of fields and is at
  least one.
\<close>

theorem Analyze_characterization:
  assumes "TrimSpace txt \<noteq> []"
  shows "\<exists>a. Analyze lc c txt appCtx = Returns (Inr a) \<and>
          WordCount a = int (length (Fields txt)) \<and> 1 \<le> WordCount a \<and>
          (Approved a \<longleftrightarrow> length (Fields txt) \<le> 100) \<and>
          (Suggestion a \<noteq> [] \<longleftrightarrow> \<not> Approved a) \<and>
          (\<not> Approved a \<longrightarrow>
             Suggestion a =
               concat (map (\<lambda>w. w @ [32]) (take 49 (Fields txt))) @ Fields txt ! 49 @
               [46, 46, 46])"
proof -
  from assms have "Fields txt \<noteq> []" by (simp add: TrimSpace_Nil_iff_Fields)
  then have "1 \<le> length (Fields txt)" by (cases "Fields txt") auto
  with assms show ?thesis
    by (simp add: Analyze_def mockAnalysis_def Let_def sliceTo_def Join_take_50
        str_space str_dots)
qed

theorem Analyze_characterization_witness:
  "TrimSpace longMessage \<noteq> [] \<and>
   (\<exists>a. Analyze asciiCase Live longMessage \<lparr>AppName = ''Slack'', ChannelType = []\<rparr> =
          Returns (Inr a) \<and>
        WordCount a = 101 \<and> \<not> Approved a \<and>
        Suggestion a = concat (replicate 49 [119, 32]) @ [119, 46, 46, 46])"
  using Analyze_characterization[OF TrimSpace_longMessage, of asciiCase Live
      "\<lparr>AppName = ''Slack'', ChannelType = []\<rparr>"]
  by (auto simp: TrimSpace_longMessage Fields_longMessage str_def map_replicate_const)

end
